theory Spec2Isabelle
  imports Main "HOL-Library.Sublist"
begin

section \<open>Tabular data (the part of pandas the components rely on)\<close>

text \<open>
  A cell of a frame is a scalar or the missing marker. \<open>NA\<close> stands for every value
  that pandas' \<open>isna\<close> accepts (\<open>None\<close>, \<open>NaN\<close>, \<open>NaT\<close>, \<open>pd.NA\<close>); floating-point
  payloads other than \<open>NaN\<close> are not represented, since neither component computes on
  cell values.
\<close>

datatype cell = NA | CInt int | CStr string | CBool bool

text \<open>
  A \<open>pd.DataFrame\<close>: the column labels, the row labels (\<open>df.index\<close>) and the
  row-major cell matrix (\<open>df.values\<close>).
\<close>

record dataframe =
  columns :: "string list"
  index :: "int list"
  vals :: "cell list list"

fun isna :: "cell \<Rightarrow> bool" where
  "isna NA = True"
| "isna (CInt i) = False"
| "isna (CStr s) = False"
| "isna (CBool b) = False"

definition notna :: "cell \<Rightarrow> bool" where
  "notna c = (\<not> isna c)"

text \<open>Length of the frame, \<open>len(df)\<close>: the number of row labels.\<close>

definition len :: "dataframe \<Rightarrow> nat" where
  "len df = length (index df)"

text \<open>
  Boolean indexing along the rows, \<open>df.loc[mask]\<close>: the entries whose mask bit is set,
  in their original order.
\<close>

definition loc_mask :: "bool list \<Rightarrow> 'a list \<Rightarrow> 'a list" where
  "loc_mask keep xs = map snd (filter fst (zip keep xs))"

text \<open>
  \<open>DataFrame.dropna()\<close> with its default arguments (\<open>axis=0\<close>, \<open>how='any'\<close>,
  \<open>subset=None\<close>, \<open>inplace=False\<close>, \<open>ignore_index=False\<close>): the row mask is
  \<open>notna(df).all(axis=1)\<close>, the result is \<open>df.loc[mask]\<close>; the columns are kept and
  the index is not reset.
\<close>

definition row_mask :: "cell list list \<Rightarrow> bool list" where
  "row_mask vs = map (list_all notna) vs"

definition dropna :: "dataframe \<Rightarrow> dataframe" where
  "dropna df =
     (let keep = row_mask (vals df)
      in df\<lparr>index := loc_mask keep (index df), vals := loc_mask keep (vals df)\<rparr>)"

section \<open>data\_cleaning.py\<close>

text \<open>\<open>DropMissingValuesStrategy.clean\<close>: \<open>return data.dropna()\<close>.\<close>

definition clean :: "dataframe \<Rightarrow> dataframe" where
  "clean data = dropna data"

text \<open>The rows of a frame together with their labels.\<close>

definition labelled_rows :: "dataframe \<Rightarrow> (int \<times> cell list) list" where
  "labelled_rows df = zip (index df) (vals df)"

text \<open>A row "contains a missing value" when some cell of it is missing.\<close>

definition has_missing :: "cell list \<Rightarrow> bool" where
  "has_missing r = list_ex isna r"

text \<open>The frame of the concrete scenario: columns a, b; rows (1, missing), (2, 3).\<close>

definition scenario :: dataframe where
  "scenario = \<lparr>columns = [''a'', ''b''], index = [0, 1],
                vals = [[CInt 1, NA], [CInt 2, CInt 3]]\<rparr>"

text \<open>
  Frames are objects: a caller holds a reference to one, and a method may either build
  a new object or change the one it was called on. The object store is the list of the
  frames allocated so far and a reference is a position in it (every reference a
  running program holds is allocated, so positions beyond the store do not occur).
  \<open>DataFrame.dropna\<close> with \<open>inplace=False\<close> allocates its result and returns the new
  reference; with \<open>inplace=True\<close> it overwrites the receiver and returns \<open>None\<close>.
\<close>

type_synonym heap = "dataframe list"

definition DataFrame_dropna :: "heap \<Rightarrow> nat \<Rightarrow> bool \<Rightarrow> heap \<times> nat option" where
  "DataFrame_dropna h self inplace =
     (let result = dropna (h ! self)
      in if inplace then (h[self := result], None) else (h @ [result], Some (length h)))"

text \<open>
  The call \<open>DropMissingValuesStrategy().clean(data)\<close> on the object level:
  \<open>data.dropna()\<close> leaves \<open>inplace\<close> at its default \<open>False\<close>. The strategy object has no
  attributes, so there is no strategy state to thread through.
\<close>

definition clean_call :: "heap \<Rightarrow> nat \<Rightarrow> heap \<times> nat option" where
  "clean_call h data = DataFrame_dropna h data False"

text \<open>The frame a call returned, read from the store the call left behind.\<close>

definition returned :: "heap \<times> nat option \<Rightarrow> dataframe option" where
  "returned out =
     (case snd out of
        None \<Rightarrow> None
      | Some r \<Rightarrow> if r < length (fst out) then Some (fst out ! r) else None)"

section \<open>Python values, exceptions and observable effects\<close>

text \<open>The values a \<open>connection_details\<close> dictionary may hold, with Python's truth test.\<close>

datatype pyval = PyNone | PyStr string | PyInt int | PyBool bool

fun truthy :: "pyval \<Rightarrow> bool" where
  "truthy PyNone = False"
| "truthy (PyStr s) = (s \<noteq> [])"
| "truthy (PyInt i) = (i \<noteq> 0)"
| "truthy (PyBool b) = b"

type_synonym connection_details = "string \<rightharpoonup> pyval"

text \<open>\<open>dict.get(key)\<close>: the value, or \<open>None\<close> for an absent key.\<close>

definition dict_get :: "connection_details \<Rightarrow> string \<Rightarrow> pyval" where
  "dict_get d k = (case d k of None \<Rightarrow> PyNone | Some v \<Rightarrow> v)"

text \<open>
  Exceptions derived from \<open>Exception\<close> (the ones the handler of \<open>ingest\<close> catches):
  the \<open>ValueError\<close> the component raises itself, and any other exception raised by a
  library, given by its class name and its text.
\<close>

datatype exn = ValueError string | Fault string string

fun str_exn :: "exn \<Rightarrow> string" where
  "str_exn (ValueError m) = m"
| "str_exn (Fault k m) = m"

text \<open>
  What a call does besides returning: the lines it hands to the logger and the calls
  it makes on the MongoDB client library, in the order they happen.
\<close>

datatype level = INFO | ERROR

datatype event =
    Log level string
  | MongoClient_call pyval
  | Get_database pyval
  | Get_collection pyval
  | Find

fun is_store_call :: "event \<Rightarrow> bool" where
  "is_store_call (Log l m) = False"
| "is_store_call (MongoClient_call u) = True"
| "is_store_call (Get_database n) = True"
| "is_store_call (Get_collection n) = True"
| "is_store_call Find = True"

text \<open>
  A computation yields the events it produced and either the exception it raised
  (\<open>Inl\<close>) or its value (\<open>Inr\<close>).
\<close>

type_synonym 'a io = "event list \<times> (exn + 'a)"

definition io_return :: "'a \<Rightarrow> 'a io" where
  "io_return x = ([], Inr x)"

definition io_raise :: "exn \<Rightarrow> 'a io" where
  "io_raise e = ([], Inl e)"

definition io_bind :: "'a io \<Rightarrow> ('a \<Rightarrow> 'b io) \<Rightarrow> 'b io" where
  "io_bind m f =
     (case m of
        (t, Inl e) \<Rightarrow> (t, Inl e)
      | (t, Inr x) \<Rightarrow> (case f x of (t', r) \<Rightarrow> (t @ t', r)))"

text \<open>\<open>try: body except Exception as e: handler\<close>.\<close>

definition try_except :: "'a io \<Rightarrow> (exn \<Rightarrow> 'a io) \<Rightarrow> 'a io" where
  "try_except body handler =
     (case body of
        (t, Inl e) \<Rightarrow> (case handler e of (t', r) \<Rightarrow> (t @ t', r))
      | (t, Inr x) \<Rightarrow> (t, Inr x))"

text \<open>
  Modelled from the spec: the repository's \<open>logger\<close> module, which the source imports,
  is not among the source files. Following the description of the logging collaborator,
  \<open>logger.info\<close> and \<open>logger.error\<close> emit the message at their level as a side effect,
  return nothing and do not fail.
\<close>

definition logger :: "level \<Rightarrow> string \<Rightarrow> unit io" where
  "logger l msg = ([Log l msg], Inr ())"

text \<open>A call into a library: the call is recorded, its outcome is the library's.\<close>

definition call :: "event \<Rightarrow> exn + 'a \<Rightarrow> 'a io" where
  "call ev outcome = ([ev], outcome)"

definition lift :: "exn + 'a \<Rightarrow> 'a io" where
  "lift outcome = ([], outcome)"

section \<open>The libraries behind data\_ingestion.py\<close>

text \<open>A record of a collection: its fields in order, each with its value.\<close>

type_synonym document = "(string \<times> cell) list"

text \<open>
  The outcomes of the library calls \<open>ingest\<close> makes, none of which is code of this
  repository: \<open>MongoClient(uri)\<close>, \<open>client[database_name]\<close>,
  \<open>database[collection_name]\<close>, \<open>list(collection.find())\<close> and
  \<open>pd.DataFrame(data)\<close>. Each either raises or returns; the handles are opaque.
\<close>

record ('c, 'd, 'k) libraries =
  MongoClient :: "pyval \<Rightarrow> exn + 'c"
  client_getitem :: "'c \<Rightarrow> pyval \<Rightarrow> exn + 'd"
  database_getitem :: "'d \<Rightarrow> pyval \<Rightarrow> exn + 'k"
  collection_find :: "'k \<Rightarrow> exn + document list"
  pd_DataFrame :: "document list \<Rightarrow> exn + dataframe"

text \<open>
  The frame pandas builds from a list of records: the columns are the union of the
  records' fields in order of first appearance, the rows are labelled \<open>0, 1, ...\<close>, and
  a field a record lacks is missing in its row.
\<close>

fun unique_keys :: "string list \<Rightarrow> string list \<Rightarrow> string list" where
  "unique_keys seen [] = []"
| "unique_keys seen (k # ks) =
     (if k \<in> set seen then unique_keys seen ks else k # unique_keys (k # seen) ks)"

definition record_row :: "string list \<Rightarrow> document \<Rightarrow> cell list" where
  "record_row cols d = map (\<lambda>c. case map_of d c of None \<Rightarrow> NA | Some v \<Rightarrow> v) cols"

definition frame_of_records :: "document list \<Rightarrow> dataframe" where
  "frame_of_records data =
     (let cols = unique_keys [] (concat (map (map fst) data))
      in \<lparr>columns = cols, index = map int [0..<length data],
          vals = map (record_row cols) data\<rparr>)"

text \<open>
  \<open>df.drop(columns=labels)\<close>: \<open>KeyError\<close> when a label is not a column, otherwise the
  frame without the columns so labelled. (\<open>inplace=True\<close> rebinds the frame held by the
  local variable, which no one else refers to.)
\<close>

definition drop_columns :: "dataframe \<Rightarrow> string list \<Rightarrow> exn + dataframe" where
  "drop_columns df labels =
     (if list_ex (\<lambda>l. l \<notin> set (columns df)) labels
      then Inl (Fault ''KeyError'' ''labels not found in axis'')
      else Inr (df\<lparr>columns := filter (\<lambda>c. c \<notin> set labels) (columns df),
                   vals := map (\<lambda>r. map snd (filter (\<lambda>p. fst p \<notin> set labels)
                                                  (zip (columns df) r)))
                               (vals df)\<rparr>))"

section \<open>data\_ingestion.py\<close>

definition missing_details :: string where
  "missing_details =
     ''Missing connection details. Ensure 'uri', 'database', and 'collection' are provided.''"

text \<open>\<open>MongoDBIngestionStrategy.ingest\<close>.\<close>

definition ingest :: "('c, 'd, 'k) libraries \<Rightarrow> connection_details \<Rightarrow> dataframe io" where
  "ingest lib connection_details =
     io_bind (logger INFO ''Connecting to MongoDB...'') (\<lambda>_.
     try_except
       (let uri = dict_get connection_details ''uri'';
            database_name = dict_get connection_details ''database'';
            collection_name = dict_get connection_details ''collection''
        in if \<not> list_all truthy [uri, database_name, collection_name]
           then io_raise (ValueError missing_details)
           else
             io_bind (call (MongoClient_call uri) (MongoClient lib uri)) (\<lambda>client.
             io_bind (call (Get_database database_name)
                        (client_getitem lib client database_name)) (\<lambda>database.
             io_bind (call (Get_collection collection_name)
                        (database_getitem lib database collection_name)) (\<lambda>collection.
             io_bind (call Find (collection_find lib collection)) (\<lambda>data.
             io_bind (lift (pd_DataFrame lib data)) (\<lambda>df.
             io_bind (if ''_id'' \<in> set (columns df)
                      then lift (drop_columns df [''_id''])
                      else io_return df) (\<lambda>df.
             io_bind (logger INFO ''Data ingestion from MongoDB completed successfully.'') (\<lambda>_.
             io_return df))))))))
       (\<lambda>e. io_bind (logger ERROR (''Error during MongoDB ingestion: '' @ str_exn e)) (\<lambda>_.
            io_raise e)))"

text \<open>
  \<open>DataIngestor\<close>: the context holds one strategy, a callable from connection details
  to a frame. \<open>set_strategy\<close> mutates the context, so the model returns the context it
  leaves behind together with the line it logs.
\<close>

type_synonym strategy = "connection_details \<Rightarrow> dataframe io"

record DataIngestor =
  strategy :: strategy

definition DataIngestor_init :: "strategy \<Rightarrow> DataIngestor" where
  "DataIngestor_init s = \<lparr>strategy = s\<rparr>"

definition set_strategy :: "DataIngestor \<Rightarrow> strategy \<Rightarrow> event list \<times> DataIngestor" where
  "set_strategy self s =
     ([Log INFO ''Switching data ingestion strategy.''], self\<lparr>strategy := s\<rparr>)"

definition ingest_data :: "DataIngestor \<Rightarrow> connection_details \<Rightarrow> dataframe io" where
  "ingest_data self connection_details =
     io_bind (logger INFO ''Ingesting data using the current strategy.'') (\<lambda>_.
     strategy self connection_details)"

section \<open>Example stores\<close>

text \<open>A store that accepts every name and serves the given records.\<close>

definition serving :: "document list \<Rightarrow> (unit, unit, unit) libraries" where
  "serving docs =
     \<lparr>MongoClient = (\<lambda>uri. Inr ()),
      client_getitem = (\<lambda>c n. Inr ()),
      database_getitem = (\<lambda>d n. Inr ()),
      collection_find = (\<lambda>k. Inr docs),
      pd_DataFrame = (\<lambda>data. Inr (frame_of_records data))\<rparr>"

definition details :: connection_details where
  "details = [''uri'' \<mapsto> PyStr ''mongodb://localhost:27017'',
              ''database'' \<mapsto> PyStr ''ads'',
              ''collection'' \<mapsto> PyStr ''campaigns'']"

definition two_records :: "document list" where
  "two_records = [[(''_id'', CInt 7), (''spend'', CInt 100)], [(''spend'', CInt 50)]]"

text \<open>A store whose \<open>n\<close>-th library call (counting from 0) raises \<open>e\<close>.\<close>

definition failing_at :: "nat \<Rightarrow> exn \<Rightarrow> (unit, unit, unit) libraries" where
  "failing_at n e =
     \<lparr>MongoClient = (\<lambda>uri. if n = 0 then Inl e else Inr ()),
      client_getitem = (\<lambda>c name. if n = 1 then Inl e else Inr ()),
      database_getitem = (\<lambda>d name. if n = 2 then Inl e else Inr ()),
      collection_find = (\<lambda>k. if n = 3 then Inl e else Inr []),
      pd_DataFrame = (\<lambda>data. if n = 4 then Inl e else Inr (frame_of_records data))\<rparr>"

definition timeout_fault :: exn where
  "timeout_fault = Fault ''ServerSelectionTimeoutError'' ''No servers found yet''"

section \<open>Facts about boolean indexing\<close>

lemma loc_mask_Nil [simp]: "loc_mask [] xs = []" "loc_mask m [] = []"
  by (simp_all add: loc_mask_def)

lemma loc_mask_Cons [simp]:
  "loc_mask (b # m) (x # xs) = (if b then x # loc_mask m xs else loc_mask m xs)"
  by (simp add: loc_mask_def)

lemma loc_mask_map_filter: "loc_mask (map P xs) xs = filter P xs"
  by (induction xs) simp_all

lemma loc_mask_zip: "zip (loc_mask m xs) (loc_mask m ys) = loc_mask m (zip xs ys)"
proof (induction m arbitrary: xs ys)
  case Nil
  show ?case by simp
next
  case (Cons b m)
  show ?case
  proof (cases xs)
    case Nil
    then show ?thesis by simp
  next
    case xs: (Cons x xs')
    show ?thesis
    proof (cases ys)
      case Nil
      then show ?thesis by simp
    next
      case (Cons y ys')
      with xs Cons.IH show ?thesis by simp
    qed
  qed
qed

lemma loc_mask_map_snd:
  "loc_mask (map P ys) (zip xs ys) = filter (\<lambda>p. P (snd p)) (zip xs ys)"
proof (induction ys arbitrary: xs)
  case Nil
  show ?case by simp
next
  case (Cons y ys)
  then show ?case by (cases xs) simp_all
qed

lemma not_has_missing: "(\<not> has_missing r) = list_all notna r"
  by (simp add: has_missing_def notna_def list_all_iff list_ex_iff)

lemma vals_clean: "vals (clean D) = filter (\<lambda>r. \<not> has_missing r) (vals D)"
  by (simp add: clean_def dropna_def row_mask_def loc_mask_map_filter not_has_missing Let_def)

lemma labelled_rows_clean:
  "labelled_rows (clean D) = filter (\<lambda>p. \<not> has_missing (snd p)) (labelled_rows D)"
  by (simp add: clean_def dropna_def row_mask_def labelled_rows_def loc_mask_zip
      loc_mask_map_snd not_has_missing Let_def)

lemma columns_clean: "columns (clean D) = columns D"
  by (simp add: clean_def dropna_def Let_def)

lemma loc_mask_all_False: "list_all (\<lambda>b. \<not> b) m \<Longrightarrow> loc_mask m xs = []"
proof (induction m arbitrary: xs)
  case Nil
  show ?case by simp
next
  case (Cons b m)
  then show ?case by (cases xs) simp_all
qed

lemma loc_mask_again:
  "loc_mask (map P (filter P vs)) (loc_mask (map P vs) xs) = loc_mask (map P vs) xs"
proof (induction vs arbitrary: xs)
  case Nil
  show ?case by simp
next
  case (Cons v vs)
  then show ?case by (cases xs) simp_all
qed

lemma subseq_loc_mask: "subseq (loc_mask m xs) xs"
proof (induction m arbitrary: xs)
  case Nil
  show ?case by simp
next
  case (Cons b m)
  then show ?case by (cases xs) auto
qed

lemma index_clean: "index (clean D) = loc_mask (map (list_all notna) (vals D)) (index D)"
  by (simp add: clean_def dropna_def row_mask_def Let_def)

lemma distinct_labelled_rows: "distinct (index D) \<Longrightarrow> distinct (map fst (labelled_rows D))"
  by (simp add: labelled_rows_def map_fst_zip_take)

section \<open>Properties of the cleaning strategy\<close>

text \<open>
  C2. \<open>DropMissingValuesStrategy.clean\<close> keeps the columns of its argument and returns
  exactly the rows without a missing cell, in their original order (the retained rows
  are the filtered row list, hence a subsequence of the original one); when every row
  has a missing cell the result has no rows at all.
\<close>

theorem clean_removes_rows_with_missing:
  "columns (clean D) = columns D
   \<and> vals (clean D) = filter (\<lambda>r. \<not> has_missing r) (vals D)
   \<and> subseq (vals (clean D)) (vals D)
   \<and> (list_all has_missing (vals D) \<longrightarrow> vals (clean D) = [] \<and> len (clean D) = 0)"
proof -
  have "list_all (\<lambda>b. \<not> b) (map (list_all notna) (vals D))" if "list_all has_missing (vals D)"
    using that by (simp add: list_all_iff has_missing_def notna_def list_ex_iff)
  then have "list_all has_missing (vals D) \<Longrightarrow> len (clean D) = 0"
    by (simp add: len_def index_clean loc_mask_all_False)
  moreover have "list_all has_missing (vals D) \<Longrightarrow> vals (clean D) = []"
    by (simp add: vals_clean list_all_iff filter_empty_conv)
  ultimately show ?thesis
    by (simp add: columns_clean vals_clean)
qed

theorem clean_removes_rows_with_missing_witness:
  "list_all has_missing (vals \<lparr>columns = [''a''], index = [0], vals = [[NA]]\<rparr>)
   \<and> vals (clean \<lparr>columns = [''a''], index = [0], vals = [[NA]]\<rparr>) = []
   \<and> len (clean \<lparr>columns = [''a''], index = [0], vals = [[NA]]\<rparr>) = 0"
  using clean_removes_rows_with_missing [of "\<lparr>columns = [''a''], index = [0], vals = [[NA]]\<rparr>"]
  by (simp add: has_missing_def)

text \<open>
  C3. Cleaning is idempotent: a second application of
  \<open>DropMissingValuesStrategy.clean\<close> returns the frame the first one returned.
\<close>

theorem clean_idempotent: "clean (clean D) = clean D"
proof -
  have "vals (clean (clean D)) = vals (clean D)"
    by (simp add: vals_clean)
  moreover have "index (clean (clean D)) = index (clean D)"
    by (simp add: index_clean [of "clean D"] vals_clean not_has_missing)
      (simp add: index_clean loc_mask_again)
  moreover have "columns (clean (clean D)) = columns (clean D)"
    by (simp add: columns_clean)
  moreover have "dataframe.more (clean (clean D)) = dataframe.more (clean D)"
    by (simp add: clean_def dropna_def Let_def)
  ultimately show ?thesis
    by (simp add: dataframe.equality)
qed

text \<open>
  C8. On the frame with columns a, b and rows (1, missing), (2, 3) the strategy returns
  the frame whose only row is (2, 3).
\<close>

theorem clean_scenario:
  "clean scenario = \<lparr>columns = [''a'', ''b''], index = [1], vals = [[CInt 2, CInt 3]]\<rparr>"
  by (simp add: clean_def dropna_def scenario_def row_mask_def notna_def Let_def)

text \<open>
  C10. The retained rows keep the labels they had before cleaning: the labelled rows of
  the result are the labelled rows of the argument without those that have a missing
  cell, so the labels of the result are a subsequence of the original labels and, when
  the original labels are distinct, looking a retained label up in the original frame
  finds the retained row. Labels are not renumbered: in the concrete scenario the
  surviving row is at position 0 of the result and still carries label 1.
\<close>

theorem clean_keeps_row_labels:
  "labelled_rows (clean D) = filter (\<lambda>p. \<not> has_missing (snd p)) (labelled_rows D)
   \<and> subseq (index (clean D)) (index D)
   \<and> (distinct (index D) \<longrightarrow>
        (\<forall>l r. (l, r) \<in> set (labelled_rows (clean D)) \<longrightarrow> map_of (labelled_rows D) l = Some r))
   \<and> index (clean scenario) = [1]"
proof -
  have "map_of (labelled_rows D) l = Some r"
    if "distinct (index D)" and "(l, r) \<in> set (labelled_rows (clean D))" for l r
  proof -
    from that(2) have "(l, r) \<in> set (labelled_rows D)"
      by (simp add: labelled_rows_clean)
    with distinct_labelled_rows [OF that(1)] show ?thesis
      by (rule map_of_is_SomeI)
  qed
  moreover have "index (clean scenario) = [1]"
    by (simp add: index_clean scenario_def notna_def)
  ultimately show ?thesis
    by (simp add: labelled_rows_clean index_clean subseq_loc_mask)
qed

theorem clean_keeps_row_labels_witness:
  "distinct (index scenario)
   \<and> (1, [CInt 2, CInt 3]) \<in> set (labelled_rows (clean scenario))
   \<and> map_of (labelled_rows scenario) 1 = Some [CInt 2, CInt 3]"
proof -
  have d: "distinct (index scenario)"
    by (simp add: scenario_def)
  have m: "(1, [CInt 2, CInt 3]) \<in> set (labelled_rows (clean scenario))"
    by (simp add: labelled_rows_def clean_def dropna_def scenario_def row_mask_def
        notna_def Let_def)
  from clean_keeps_row_labels [of scenario] d m
  have "map_of (labelled_rows scenario) 1 = Some [CInt 2, CInt 3]"
    by blast
  with d m show ?thesis by simp
qed

section \<open>Facts about the effect combinators and the libraries\<close>

lemma io_bind_Inl [simp]: "io_bind (t, Inl e) f = (t, Inl e)"
  by (simp add: io_bind_def)

lemma io_bind_Inr [simp]: "io_bind (t, Inr x) f = (t @ fst (f x), snd (f x))"
  by (simp add: io_bind_def split: prod.splits)

lemma try_except_Inl [simp]: "try_except (t, Inl e) h = (t @ fst (h e), snd (h e))"
  by (simp add: try_except_def split: prod.splits)

lemma try_except_Inr [simp]: "try_except (t, Inr x) h = (t, Inr x)"
  by (simp add: try_except_def)

lemmas io_defs = logger_def call_def lift_def io_return_def io_raise_def

lemma dict_get_falsy:
  "d k = None \<or> (\<exists>v. d k = Some v \<and> \<not> truthy v) \<Longrightarrow> \<not> truthy (dict_get d k)"
  by (auto simp add: dict_get_def)

lemma ingest_invalid:
  assumes "\<not> truthy (dict_get cd ''uri'') \<or> \<not> truthy (dict_get cd ''database'')
           \<or> \<not> truthy (dict_get cd ''collection'')"
  shows "ingest lib cd =
           ([Log INFO ''Connecting to MongoDB...'',
             Log ERROR (''Error during MongoDB ingestion: '' @ missing_details)],
            Inl (ValueError missing_details))"
  using assms by (auto simp add: ingest_def io_defs)

lemma ingest_connect_fault:
  assumes "truthy (dict_get cd ''uri'')" "truthy (dict_get cd ''database'')"
    "truthy (dict_get cd ''collection'')"
    and "MongoClient lib (dict_get cd ''uri'') = Inl e"
  shows "ingest lib cd =
           ([Log INFO ''Connecting to MongoDB...'',
             MongoClient_call (dict_get cd ''uri''),
             Log ERROR (''Error during MongoDB ingestion: '' @ str_exn e)],
            Inl e)"
  using assms by (simp add: ingest_def io_defs)

lemma ingest_database_fault:
  assumes "truthy (dict_get cd ''uri'')" "truthy (dict_get cd ''database'')"
    "truthy (dict_get cd ''collection'')"
    and "MongoClient lib (dict_get cd ''uri'') = Inr c"
    and "client_getitem lib c (dict_get cd ''database'') = Inl e"
  shows "ingest lib cd =
           ([Log INFO ''Connecting to MongoDB...'',
             MongoClient_call (dict_get cd ''uri''),
             Get_database (dict_get cd ''database''),
             Log ERROR (''Error during MongoDB ingestion: '' @ str_exn e)],
            Inl e)"
  using assms by (simp add: ingest_def io_defs)

lemma ingest_collection_fault:
  assumes "truthy (dict_get cd ''uri'')" "truthy (dict_get cd ''database'')"
    "truthy (dict_get cd ''collection'')"
    and "MongoClient lib (dict_get cd ''uri'') = Inr c"
    and "client_getitem lib c (dict_get cd ''database'') = Inr d"
    and "database_getitem lib d (dict_get cd ''collection'') = Inl e"
  shows "ingest lib cd =
           ([Log INFO ''Connecting to MongoDB...'',
             MongoClient_call (dict_get cd ''uri''),
             Get_database (dict_get cd ''database''),
             Get_collection (dict_get cd ''collection''),
             Log ERROR (''Error during MongoDB ingestion: '' @ str_exn e)],
            Inl e)"
  using assms by (simp add: ingest_def io_defs)

lemma ingest_find_fault:
  assumes "truthy (dict_get cd ''uri'')" "truthy (dict_get cd ''database'')"
    "truthy (dict_get cd ''collection'')"
    and "MongoClient lib (dict_get cd ''uri'') = Inr c"
    and "client_getitem lib c (dict_get cd ''database'') = Inr d"
    and "database_getitem lib d (dict_get cd ''collection'') = Inr k"
    and "collection_find lib k = Inl e"
  shows "ingest lib cd =
           ([Log INFO ''Connecting to MongoDB...'',
             MongoClient_call (dict_get cd ''uri''),
             Get_database (dict_get cd ''database''),
             Get_collection (dict_get cd ''collection''), Find,
             Log ERROR (''Error during MongoDB ingestion: '' @ str_exn e)],
            Inl e)"
  using assms by (simp add: ingest_def io_defs)

lemma ingest_convert_fault:
  assumes "truthy (dict_get cd ''uri'')" "truthy (dict_get cd ''database'')"
    "truthy (dict_get cd ''collection'')"
    and "MongoClient lib (dict_get cd ''uri'') = Inr c"
    and "client_getitem lib c (dict_get cd ''database'') = Inr d"
    and "database_getitem lib d (dict_get cd ''collection'') = Inr k"
    and "collection_find lib k = Inr docs"
    and "pd_DataFrame lib docs = Inl e"
  shows "ingest lib cd =
           ([Log INFO ''Connecting to MongoDB...'',
             MongoClient_call (dict_get cd ''uri''),
             Get_database (dict_get cd ''database''),
             Get_collection (dict_get cd ''collection''), Find,
             Log ERROR (''Error during MongoDB ingestion: '' @ str_exn e)],
            Inl e)"
  using assms by (simp add: ingest_def io_defs)

lemma drop_id:
  "''_id'' \<in> set (columns df) \<Longrightarrow>
   drop_columns df [''_id''] =
     Inr (df\<lparr>columns := filter (\<lambda>c. c \<noteq> ''_id'') (columns df),
            vals := map (\<lambda>r. map snd (filter (\<lambda>p. fst p \<noteq> ''_id'') (zip (columns df) r)))
                      (vals df)\<rparr>)"
  by (simp add: drop_columns_def)

lemma ingest_success:
  assumes "truthy (dict_get cd ''uri'')" "truthy (dict_get cd ''database'')"
    "truthy (dict_get cd ''collection'')"
    and "MongoClient lib (dict_get cd ''uri'') = Inr c"
    and "client_getitem lib c (dict_get cd ''database'') = Inr d"
    and "database_getitem lib d (dict_get cd ''collection'') = Inr k"
    and "collection_find lib k = Inr docs"
    and "pd_DataFrame lib docs = Inr df"
  shows "ingest lib cd =
           ([Log INFO ''Connecting to MongoDB...'',
             MongoClient_call (dict_get cd ''uri''),
             Get_database (dict_get cd ''database''),
             Get_collection (dict_get cd ''collection''), Find,
             Log INFO ''Data ingestion from MongoDB completed successfully.''],
            Inr (if ''_id'' \<in> set (columns df)
                 then df\<lparr>columns := filter (\<lambda>c. c \<noteq> ''_id'') (columns df),
                        vals := map (\<lambda>r. map snd (filter (\<lambda>p. fst p \<noteq> ''_id'')
                                                      (zip (columns df) r)))
                                  (vals df)\<rparr>
                 else df))"
  using assms by (simp add: ingest_def io_defs drop_id)

lemma length_filter_zip_fst:
  "length xs = length ys \<Longrightarrow>
   length (filter (\<lambda>p. P (fst p)) (zip xs ys)) = length (filter P xs)"
  by (induction xs ys rule: list_induct2) simp_all

lemma frame_of_records_shape:
  "len (frame_of_records docs) = length docs"
  "length (vals (frame_of_records docs)) = length docs"
  "r \<in> set (vals (frame_of_records docs)) \<Longrightarrow> length r = length (columns (frame_of_records docs))"
  by (auto simp add: frame_of_records_def len_def record_row_def Let_def)

lemma details_truthy:
  "truthy (dict_get details ''uri'')" "truthy (dict_get details ''database'')"
  "truthy (dict_get details ''collection'')"
  by (simp_all add: details_def dict_get_def)

section \<open>Properties of the ingestion strategy\<close>

text \<open>
  C1. When one of the keys \<open>uri\<close>, \<open>database\<close>, \<open>collection\<close> is absent from the
  connection details or bound to an empty (falsy) value, \<open>ingest\<close> fails with the
  configuration error (the \<open>ValueError\<close> of the validation step) whatever the libraries
  would answer: the client is never constructed and no call reaches the store; the only
  effects are the opening log line and the error log line.
\<close>

theorem ingest_rejects_incomplete_details:
  assumes "k \<in> {''uri'', ''database'', ''collection''}"
    and "cd k = None \<or> (\<exists>v. cd k = Some v \<and> \<not> truthy v)"
  shows "ingest lib cd =
           ([Log INFO ''Connecting to MongoDB...'',
             Log ERROR (''Error during MongoDB ingestion: '' @ missing_details)],
            Inl (ValueError missing_details))
         \<and> \<not> list_ex is_store_call (fst (ingest lib cd))
         \<and> (\<forall>u. MongoClient_call u \<notin> set (fst (ingest lib cd)))"
proof -
  from assms(2) have "\<not> truthy (dict_get cd k)"
    by (rule dict_get_falsy)
  with assms(1) have
    "\<not> truthy (dict_get cd ''uri'') \<or> \<not> truthy (dict_get cd ''database'')
     \<or> \<not> truthy (dict_get cd ''collection'')"
    by auto
  then have "ingest lib cd =
           ([Log INFO ''Connecting to MongoDB...'',
             Log ERROR (''Error during MongoDB ingestion: '' @ missing_details)],
            Inl (ValueError missing_details))"
    by (rule ingest_invalid)
  then show ?thesis by simp
qed

theorem ingest_rejects_incomplete_details_witness:
  "snd (ingest (serving two_records) (details(''uri'' := None))) = Inl (ValueError missing_details)
   \<and> snd (ingest (serving two_records) (details(''database'' \<mapsto> PyStr [])))
       = Inl (ValueError missing_details)
   \<and> \<not> list_ex is_store_call (fst (ingest (serving two_records) (details(''uri'' := None))))"
  using ingest_rejects_incomplete_details
          [of "''uri''" "details(''uri'' := None)" "serving two_records"]
        ingest_rejects_incomplete_details
          [of "''database''" "details(''database'' \<mapsto> PyStr [])" "serving two_records"]
  by simp

text \<open>
  C4. When the connection details are complete, every library call succeeds, the
  collection holds the records \<open>docs\<close> and pandas builds their frame, \<open>ingest\<close> returns a
  frame with one row per record (as many labels and as many rows as there are records)
  that has no \<open>_id\<close> column, every row being exactly as wide as the remaining columns.
  Nothing is assumed about which of the records carry an \<open>_id\<close> field, so this holds
  for every number of such records.
\<close>

theorem ingest_rows_and_no_id:
  assumes "truthy (dict_get cd ''uri'')" "truthy (dict_get cd ''database'')"
    "truthy (dict_get cd ''collection'')"
    and "MongoClient lib (dict_get cd ''uri'') = Inr c"
    and "client_getitem lib c (dict_get cd ''database'') = Inr d"
    and "database_getitem lib d (dict_get cd ''collection'') = Inr k"
    and "collection_find lib k = Inr docs"
    and "pd_DataFrame lib docs = Inr (frame_of_records docs)"
  shows "\<exists>df. snd (ingest lib cd) = Inr df
              \<and> len df = length docs
              \<and> length (vals df) = length docs
              \<and> ''_id'' \<notin> set (columns df)
              \<and> list_all (\<lambda>r. length r = length (columns df)) (vals df)"
proof -
  let ?F = "frame_of_records docs"
  let ?D = "?F\<lparr>columns := filter (\<lambda>c. c \<noteq> ''_id'') (columns ?F),
               vals := map (\<lambda>r. map snd (filter (\<lambda>p. fst p \<noteq> ''_id'') (zip (columns ?F) r)))
                         (vals ?F)\<rparr>"
  have res: "snd (ingest lib cd) = Inr (if ''_id'' \<in> set (columns ?F) then ?D else ?F)"
    using ingest_success [OF assms] by simp
  show ?thesis
  proof (cases "''_id'' \<in> set (columns ?F)")
    case True
    have "length (map snd (filter (\<lambda>p. fst p \<noteq> ''_id'') (zip (columns ?F) r)))
            = length (filter (\<lambda>c. c \<noteq> ''_id'') (columns ?F))"
      if "r \<in> set (vals ?F)" for r
      using frame_of_records_shape(3) [OF that]
      by (simp add: length_filter_zip_fst [of "columns ?F" r "\<lambda>c. c \<noteq> ''_id''"])
    then have "list_all (\<lambda>r. length r = length (columns ?D)) (vals ?D)"
      by (simp add: list_all_iff)
    moreover have "len ?D = length docs" "length (vals ?D) = length docs"
      using frame_of_records_shape(1,2) [of docs] by (simp_all add: len_def)
    moreover have "''_id'' \<notin> set (columns ?D)"
      by simp
    ultimately show ?thesis
      using res True by simp
  next
    case False
    have "list_all (\<lambda>r. length r = length (columns ?F)) (vals ?F)"
      using frame_of_records_shape(3) [of _ docs] by (simp add: list_all_iff)
    with False res frame_of_records_shape(1,2) [of docs] show ?thesis
      by simp
  qed
qed

theorem ingest_rows_and_no_id_witness:
  "\<exists>df. snd (ingest (serving two_records) details) = Inr df
        \<and> len df = 2 \<and> length (vals df) = 2 \<and> ''_id'' \<notin> set (columns df)
        \<and> list_all (\<lambda>r. length r = length (columns df)) (vals df)"
proof -
  have "\<exists>df. snd (ingest (serving two_records) details) = Inr df
        \<and> len df = length two_records \<and> length (vals df) = length two_records
        \<and> ''_id'' \<notin> set (columns df)
        \<and> list_all (\<lambda>r. length r = length (columns df)) (vals df)"
    by (rule ingest_rows_and_no_id [where c = "()" and d = "()" and k = "()"])
      (simp_all add: details_truthy serving_def)
  moreover have "length two_records = 2"
    by (simp add: two_records_def)
  ultimately show ?thesis by (simp only:)
qed

text \<open>
  C7. When the connection details are complete, every library call succeeds and the
  collection is empty, \<open>ingest\<close> returns a frame with zero rows.
\<close>

theorem ingest_empty_collection:
  assumes "truthy (dict_get cd ''uri'')" "truthy (dict_get cd ''database'')"
    "truthy (dict_get cd ''collection'')"
    and "MongoClient lib (dict_get cd ''uri'') = Inr c"
    and "client_getitem lib c (dict_get cd ''database'') = Inr d"
    and "database_getitem lib d (dict_get cd ''collection'') = Inr k"
    and "collection_find lib k = Inr []"
    and "pd_DataFrame lib [] = Inr (frame_of_records [])"
  shows "\<exists>df. snd (ingest lib cd) = Inr df \<and> len df = 0 \<and> vals df = []"
  using ingest_success [OF assms]
  by (simp add: frame_of_records_def len_def)

theorem ingest_empty_collection_witness:
  "\<exists>df. snd (ingest (serving []) details) = Inr df \<and> len df = 0 \<and> vals df = []"
  by (rule ingest_empty_collection [where c = "()" and d = "()" and k = "()"])
    (simp_all add: details_truthy serving_def)

text \<open>
  C6. With complete connection details, when the construction of the client, the
  selection of the database or of the collection, the fetch or the conversion raises
  \<open>e\<close>, \<open>ingest\<close> raises that same \<open>e\<close> and returns no frame. Its effects are the opening
  log line, then an initial part of the four store calls in order (each made at most
  once, none repeated after the fault), then the error-level log line carrying the text
  of \<open>e\<close>; the success line is never logged.
\<close>

theorem ingest_resignals_fault:
  assumes "truthy (dict_get cd ''uri'')" "truthy (dict_get cd ''database'')"
    "truthy (dict_get cd ''collection'')"
    and "MongoClient lib (dict_get cd ''uri'') = Inl e
         \<or> (\<exists>c. MongoClient lib (dict_get cd ''uri'') = Inr c
              \<and> (client_getitem lib c (dict_get cd ''database'') = Inl e
                 \<or> (\<exists>d. client_getitem lib c (dict_get cd ''database'') = Inr d
                      \<and> (database_getitem lib d (dict_get cd ''collection'') = Inl e
                         \<or> (\<exists>k. database_getitem lib d (dict_get cd ''collection'') = Inr k
                              \<and> (collection_find lib k = Inl e
                                 \<or> (\<exists>docs. collection_find lib k = Inr docs
                                      \<and> pd_DataFrame lib docs = Inl e)))))))"
  shows "snd (ingest lib cd) = Inl e
         \<and> (\<exists>calls. prefix calls [MongoClient_call (dict_get cd ''uri''),
                                   Get_database (dict_get cd ''database''),
                                   Get_collection (dict_get cd ''collection''), Find]
                \<and> fst (ingest lib cd) =
                    Log INFO ''Connecting to MongoDB...'' # calls
                    @ [Log ERROR (''Error during MongoDB ingestion: '' @ str_exn e)])"
proof -
  let ?u = "MongoClient_call (dict_get cd ''uri'')"
  let ?d = "Get_database (dict_get cd ''database'')"
  let ?k = "Get_collection (dict_get cd ''collection'')"
  let ?err = "Log ERROR (''Error during MongoDB ingestion: '' @ str_exn e)"
  have "\<exists>calls. prefix calls [?u, ?d, ?k, Find]
          \<and> ingest lib cd = (Log INFO ''Connecting to MongoDB...'' # calls @ [?err], Inl e)"
    using assms(4)
  proof (elim disjE exE conjE)
    assume "MongoClient lib (dict_get cd ''uri'') = Inl e"
    from ingest_connect_fault [OF assms(1-3) this]
    have "prefix [?u] [?u, ?d, ?k, Find]
          \<and> ingest lib cd = (Log INFO ''Connecting to MongoDB...'' # [?u] @ [?err], Inl e)"
      by simp
    then show ?thesis by blast
  next
    fix c
    assume "MongoClient lib (dict_get cd ''uri'') = Inr c"
      "client_getitem lib c (dict_get cd ''database'') = Inl e"
    from ingest_database_fault [OF assms(1-3) this]
    have "prefix [?u, ?d] [?u, ?d, ?k, Find]
          \<and> ingest lib cd = (Log INFO ''Connecting to MongoDB...'' # [?u, ?d] @ [?err], Inl e)"
      by simp
    then show ?thesis by blast
  next
    fix c d
    assume "MongoClient lib (dict_get cd ''uri'') = Inr c"
      "client_getitem lib c (dict_get cd ''database'') = Inr d"
      "database_getitem lib d (dict_get cd ''collection'') = Inl e"
    from ingest_collection_fault [OF assms(1-3) this]
    have "prefix [?u, ?d, ?k] [?u, ?d, ?k, Find]
          \<and> ingest lib cd = (Log INFO ''Connecting to MongoDB...'' # [?u, ?d, ?k] @ [?err], Inl e)"
      by simp
    then show ?thesis by blast
  next
    fix c d k
    assume "MongoClient lib (dict_get cd ''uri'') = Inr c"
      "client_getitem lib c (dict_get cd ''database'') = Inr d"
      "database_getitem lib d (dict_get cd ''collection'') = Inr k"
      "collection_find lib k = Inl e"
    from ingest_find_fault [OF assms(1-3) this]
    have "prefix [?u, ?d, ?k, Find] [?u, ?d, ?k, Find]
          \<and> ingest lib cd
              = (Log INFO ''Connecting to MongoDB...'' # [?u, ?d, ?k, Find] @ [?err], Inl e)"
      by simp
    then show ?thesis by blast
  next
    fix c d k docs
    assume "MongoClient lib (dict_get cd ''uri'') = Inr c"
      "client_getitem lib c (dict_get cd ''database'') = Inr d"
      "database_getitem lib d (dict_get cd ''collection'') = Inr k"
      "collection_find lib k = Inr docs"
      "pd_DataFrame lib docs = Inl e"
    from ingest_convert_fault [OF assms(1-3) this]
    have "prefix [?u, ?d, ?k, Find] [?u, ?d, ?k, Find]
          \<and> ingest lib cd
              = (Log INFO ''Connecting to MongoDB...'' # [?u, ?d, ?k, Find] @ [?err], Inl e)"
      by simp
    then show ?thesis by blast
  qed
  then obtain calls where "prefix calls [?u, ?d, ?k, Find]"
    and "ingest lib cd = (Log INFO ''Connecting to MongoDB...'' # calls @ [?err], Inl e)"
    by blast
  then show ?thesis by auto
qed

theorem ingest_resignals_fault_witness:
  "snd (ingest (failing_at 0 timeout_fault) details) = Inl timeout_fault
   \<and> snd (ingest (failing_at 1 timeout_fault) details) = Inl timeout_fault
   \<and> snd (ingest (failing_at 2 timeout_fault) details) = Inl timeout_fault
   \<and> snd (ingest (failing_at 3 timeout_fault) details) = Inl timeout_fault
   \<and> snd (ingest (failing_at 4 timeout_fault) details) = Inl timeout_fault"
proof -
  have "snd (ingest (failing_at n timeout_fault) details) = Inl timeout_fault"
    if "n \<le> 4" for n
  proof -
    have "snd (ingest (failing_at n timeout_fault) details) = Inl timeout_fault
          \<and> (\<exists>calls. prefix calls [MongoClient_call (dict_get details ''uri''),
                                   Get_database (dict_get details ''database''),
                                   Get_collection (dict_get details ''collection''), Find]
                \<and> fst (ingest (failing_at n timeout_fault) details) =
                    Log INFO ''Connecting to MongoDB...'' # calls
                    @ [Log ERROR (''Error during MongoDB ingestion: '' @ str_exn timeout_fault)])"
      using that
      by (intro ingest_resignals_fault details_truthy) (auto simp add: failing_at_def)
    then show ?thesis by simp
  qed
  then show ?thesis by simp
qed

lemma clean_call_eq:
  "clean_call h data = (h @ [clean (h ! data)], Some (length h))"
  by (simp add: clean_call_def DataFrame_dropna_def clean_def Let_def)

lemma returned_clean_call: "returned (clean_call h data) = Some (clean (h ! data))"
  by (simp add: clean_call_eq returned_def)

lemma ingest_data_eq:
  "ingest_data self cd =
     (Log INFO ''Ingesting data using the current strategy.'' # fst (strategy self cd),
      snd (strategy self cd))"
  by (simp add: ingest_data_def logger_def)

section \<open>Properties of the ingestion context\<close>

text \<open>
  C5. After \<open>set_strategy\<close> with \<open>s2\<close> the context holds \<open>s2\<close>, and the next
  \<open>ingest_data\<close> is the context's own log line followed by exactly the effects and the
  outcome of \<open>s2\<close> on the given connection details. The strategy held before does not
  occur in that result; in particular, when the strategy \<open>s1\<close> held before would have
  produced a different outcome, \<open>ingest_data\<close> produces the outcome of \<open>s2\<close> and not
  that of \<open>s1\<close>.
\<close>

theorem set_strategy_switches:
  "strategy (snd (set_strategy self s2)) = s2
   \<and> ingest_data (snd (set_strategy self s2)) cd =
       (Log INFO ''Ingesting data using the current strategy.'' # fst (s2 cd), snd (s2 cd))
   \<and> (strategy self = s1 \<and> snd (s1 cd) \<noteq> snd (s2 cd) \<longrightarrow>
        snd (ingest_data (snd (set_strategy self s2)) cd) = snd (s2 cd)
        \<and> snd (ingest_data (snd (set_strategy self s2)) cd) \<noteq> snd (s1 cd))"
  by (auto simp add: ingest_data_eq set_strategy_def)

theorem set_strategy_switches_witness:
  "strategy (DataIngestor_init (ingest (failing_at 0 timeout_fault)))
     = ingest (failing_at 0 timeout_fault)
   \<and> snd (ingest (failing_at 0 timeout_fault) details) \<noteq> snd (ingest (serving []) details)
   \<and> snd (ingest_data (snd (set_strategy (DataIngestor_init (ingest (failing_at 0 timeout_fault)))
                               (ingest (serving [])))) details)
       = snd (ingest (serving []) details)
   \<and> snd (ingest_data (snd (set_strategy (DataIngestor_init (ingest (failing_at 0 timeout_fault)))
                               (ingest (serving [])))) details)
       \<noteq> snd (ingest (failing_at 0 timeout_fault) details)"
proof -
  let ?s1 = "ingest (failing_at 0 timeout_fault)"
  let ?s2 = "ingest (serving [])"
  have held: "strategy (DataIngestor_init ?s1) = ?s1"
    by (simp add: DataIngestor_init_def)
  have "MongoClient (failing_at 0 timeout_fault) (dict_get details ''uri'') = Inl timeout_fault"
    by (simp add: failing_at_def)
  from ingest_connect_fault [OF details_truthy this]
  have s1: "snd (?s1 details) = Inl timeout_fault"
    by simp
  have "snd (?s2 details) = Inr (frame_of_records [])"
    using ingest_success [of details "serving []" "()" "()" "()" "[]" "frame_of_records []"]
    by (simp add: details_truthy serving_def frame_of_records_def)
  with s1 have differ: "snd (?s1 details) \<noteq> snd (?s2 details)"
    by simp
  from set_strategy_switches [of "DataIngestor_init ?s1" ?s2 details ?s1] held differ
  show ?thesis by simp
qed

section \<open>Purity of the cleaning strategy\<close>

text \<open>
  C9. A call of \<open>DropMissingValuesStrategy.clean\<close> on an allocated frame returns a
  reference to a newly allocated frame, different from its argument, whose content is
  the cleaned argument; every frame that existed before the call, the argument
  included, is unchanged. The returned frame depends on the content of the argument
  alone: calls in any two stores on arguments with equal content return equal frames,
  and so does a call made after an earlier call of the strategy.
\<close>

theorem clean_call_pure:
  assumes "data < length h"
  shows "(\<exists>h' r. clean_call h data = (h', Some r) \<and> r \<noteq> data \<and> length h \<le> r \<and> r < length h'
            \<and> h' ! r = clean (h ! data) \<and> take (length h) h' = h \<and> h' ! data = h ! data)
         \<and> returned (clean_call h data) = Some (clean (h ! data))
         \<and> (\<forall>h2 data2. data2 < length h2 \<and> h2 ! data2 = h ! data \<longrightarrow>
               returned (clean_call h2 data2) = returned (clean_call h data))
         \<and> (\<forall>other. other < length h \<longrightarrow>
               returned (clean_call (fst (clean_call h other)) data)
                 = returned (clean_call h data))"
proof -
  have "clean_call h data = (h @ [clean (h ! data)], Some (length h))"
    by (rule clean_call_eq)
  moreover have "(h @ [clean (h ! data)]) ! data = h ! data"
    using assms by (simp add: nth_append)
  ultimately have fresh:
    "\<exists>h' r. clean_call h data = (h', Some r) \<and> r \<noteq> data \<and> length h \<le> r \<and> r < length h'
        \<and> h' ! r = clean (h ! data) \<and> take (length h) h' = h \<and> h' ! data = h ! data"
    using assms by simp
  have same: "returned (clean_call h2 data2) = returned (clean_call h data)"
    if "h2 ! data2 = h ! data" for h2 data2
    using that by (simp add: returned_clean_call)
  have "fst (clean_call h other) ! data = h ! data" for other
    using assms by (simp add: clean_call_eq nth_append)
  then have later:
    "returned (clean_call (fst (clean_call h other)) data) = returned (clean_call h data)"
    for other
    by (rule same)
  from fresh same later show ?thesis
    by (simp add: returned_clean_call)
qed

theorem clean_call_pure_witness:
  "fst (clean_call [scenario] 0) ! 0 = scenario
   \<and> returned (clean_call [scenario] 0) = Some (clean scenario)
   \<and> returned (clean_call (fst (clean_call [scenario] 0)) 0) = returned (clean_call [scenario] 0)"
proof -
  have "(0::nat) < length [scenario]" by simp
  from clean_call_pure [OF this] show ?thesis
    by auto
qed

end
